theory Spec2Isabelle
  imports Complex_Main "HOL-Library.Word"
begin

unbundle bit_operations_syntax

section \<open>Conventions of the embedding\<close>

text \<open>
  The memory subsystem lives in \<^verbatim>\<open>templates/basic-agent/src/memory.ts\<close> (classes
  \<^verbatim>\<open>ShortTermMemory\<close> and \<^verbatim>\<open>LongTermMemory\<close>) and in the code listings of
  \<^verbatim>\<open>guide/03-memory.md\<close> (classes \<^verbatim>\<open>LongTermMemory\<close> and \<^verbatim>\<open>AgentMemory\<close> and the helper
  \<^verbatim>\<open>storeIfNew\<close>; the answers of the SQL queries of \<^verbatim>\<open>EpisodicMemory\<close> and of the model
  calls are inputs).

  \<^item> A JavaScript string is a \<^typ>\<open>string\<close>; a character stands for one code unit in the
    range 0..255 (Latin-1), so \<^const>\<open>length\<close> is \<^verbatim>\<open>.length\<close>.
  \<^item> A JavaScript number that holds a count or a time stamp is an \<^typ>\<open>int\<close> or a
    \<^typ>\<open>nat\<close>; one that holds a score, a weight or a vector entry is a \<^typ>\<open>real\<close>:
    arithmetic is exact, the rounding of IEEE doubles and of \<^verbatim>\<open>Float32Array\<close> is not
    modelled.
  \<^item> The SQLite table \<^verbatim>\<open>memories\<close> is the list of its rows in scan (rowid) order.
  \<^item> \<^verbatim>\<open>Date.now()\<close> and the SHA-256 hex digest of the \<^verbatim>\<open>crypto\<close> module are
    parameters of the operations that call them.
\<close>

section \<open>Utilities of memory.ts\<close>

text \<open>\<^verbatim>\<open>h = ((h << 5) - h + str.charCodeAt(i)) | 0\<close>, a signed 32-bit value.\<close>

fun hash_loop :: "32 word \<Rightarrow> string \<Rightarrow> 32 word" where
  "hash_loop h [] = h"
| "hash_loop h (c # cs) = hash_loop (push_bit 5 h - h + word_of_nat (of_char c)) cs"

definition hash :: "string \<Rightarrow> int" where
  "hash str = sint (hash_loop 0 str)"

text \<open>
  \<^verbatim>\<open>cosineSimilarity(a, b)\<close> loops over the indices of \<^verbatim>\<open>a\<close>. Where \<^verbatim>\<open>b\<close> is shorter,
  \<^verbatim>\<open>b[i]\<close> is \<^verbatim>\<open>undefined\<close>, \<^verbatim>\<open>magB\<close> becomes \<^verbatim>\<open>NaN\<close>, which is falsy, and the
  result is 0.
\<close>

definition sum_squares :: "real list \<Rightarrow> real" where
  "sum_squares v = (\<Sum>x\<leftarrow>v. x * x)"

definition dot_product :: "real list \<Rightarrow> real list \<Rightarrow> real" where
  "dot_product a b = (\<Sum>(x, y)\<leftarrow>zip a b. x * y)"


section \<open>The default embedding\<close>

text \<open>\<^verbatim>\<open>toLowerCase()\<close> on Latin-1 code units.\<close>

definition lower_char :: "char \<Rightarrow> char" where
  "lower_char c =
     (let n = (of_char c :: nat)
      in if (65 \<le> n \<and> n \<le> 90) \<or> (192 \<le> n \<and> n \<le> 222 \<and> n \<noteq> 215)
         then char_of (n + 32) else c)"

definition toLowerCase :: "string \<Rightarrow> string" where
  "toLowerCase s = map lower_char s"

text \<open>White space of \<^verbatim>\<open>trim()\<close> and of the regular expression \<^verbatim>\<open>\s\<close>, below 256.\<close>

definition is_space :: "char \<Rightarrow> bool" where
  "is_space c = (let n = (of_char c :: nat) in (9 \<le> n \<and> n \<le> 13) \<or> n = 32 \<or> n = 160)"

definition trim :: "string \<Rightarrow> string" where
  "trim s = rev (dropWhile is_space (rev (dropWhile is_space s)))"

text \<open>
  \<^verbatim>\<open>s.split(/\s+/)\<close>: the pieces between maximal runs of white space; the empty string
  gives one empty piece.
\<close>

fun split_loop :: "bool \<Rightarrow> string \<Rightarrow> string \<Rightarrow> string list" where
  "split_loop in_gap cur [] = [cur]"
| "split_loop in_gap cur (c # cs) =
     (if is_space c
      then (if in_gap then split_loop True cur cs else cur # split_loop True [] cs)
      else split_loop False (cur @ [c]) cs)"

definition split_ws :: "string \<Rightarrow> string list" where
  "split_ws s = split_loop False [] s"

text \<open>The slices \<^verbatim>\<open>normalized.slice(i, i + 3)\<close> for \<^verbatim>\<open>0 <= i < length - 2\<close>.\<close>

fun trigrams :: "string \<Rightarrow> string list" where
  "trigrams (a # b # c # rest) = [a, b, c] # trigrams (b # c # rest)"
| "trigrams _ = []"

text \<open>
  \<^verbatim>\<open>vec[Math.abs(h) % dimension] += (h > 0 ? 1 : -1) * weight\<close>. The accumulator holds
  small integers, which a \<^verbatim>\<open>Float32Array\<close> stores exactly.
\<close>

definition bump :: "nat \<Rightarrow> int \<Rightarrow> int list \<Rightarrow> string \<Rightarrow> int list" where
  "bump dimension weight vec s =
     (let h = hash s; i = nat \<bar>h\<bar> mod dimension
      in if i < length vec
         then vec[i := vec ! i + (if h > 0 then 1 else - 1) * weight]
         else vec)"

text \<open>The accumulator of \<^verbatim>\<open>LongTermMemory.embed\<close> before normalisation.\<close>

definition accumulate :: "nat \<Rightarrow> string \<Rightarrow> int list" where
  "accumulate dimension text =
     (let normalized = trim (toLowerCase text);
          vec0 = replicate dimension 0;
          vec1 = foldl (bump dimension 1) vec0 (trigrams normalized);
          vec2 = foldl (bump dimension 2) vec1
                   (filter (\<lambda>word. \<not> length word < 2) (split_ws normalized))
      in vec2)"

text \<open>\<^verbatim>\<open>mag = Math.sqrt(sum of squares); if (mag > 0) vec[i] /= mag\<close>.\<close>

definition l2_normalize :: "int list \<Rightarrow> real list" where
  "l2_normalize vec =
     (let v = map real_of_int vec; mag = sqrt (sum_squares v)
      in if mag > 0 then map (\<lambda>x. x / mag) v else v)"

definition embed :: "nat \<Rightarrow> string \<Rightarrow> real list" where
  "embed dimension text = l2_normalize (accumulate dimension text)"

section \<open>The Semantic Store: LongTermMemory of memory.ts\<close>

text \<open>
  The values of the column \<^verbatim>\<open>type\<close>: memory.ts writes \<^verbatim>\<open>fact\<close>, \<^verbatim>\<open>preference\<close>,
  \<^verbatim>\<open>procedure\<close> and \<^verbatim>\<open>note\<close>; the class of the guide writes \<^verbatim>\<open>entity\<close> instead of
  \<^verbatim>\<open>note\<close>.
\<close>

datatype memory_type = Fact | Preference | Procedure | Note | Entity

text \<open>A row of the table \<^verbatim>\<open>memories\<close>; the column \<^verbatim>\<open>id\<close> is its primary key.\<close>

record memory_row =
  row_id :: string
  content :: string
  embedding :: "real list"
  row_type :: memory_type
  source :: string
  importance :: real
  created_at :: int
  access_count :: int
  last_accessed :: int



text \<open>
  \<^verbatim>\<open>INSERT OR REPLACE\<close>: every row with the new row's primary key is deleted, then the
  new row is inserted (with a fresh rowid, so at the end of the scan order).
\<close>

definition insert_or_replace :: "memory_row \<Rightarrow> memory_row list \<Rightarrow> memory_row list" where
  "insert_or_replace new rows = filter (\<lambda>r. row_id r \<noteq> row_id new) rows @ [new]"

text \<open>
  \<^verbatim>\<open>store(content, type, source, importance)\<close>. The id is the first 12 hex digits of the
  SHA-256 digest of the content. There is no check of the content and none of the
  importance. The result is the id and the table afterwards.
\<close>

definition store ::
  "(string \<Rightarrow> string) \<Rightarrow> nat \<Rightarrow> int \<Rightarrow>
   string \<Rightarrow> memory_type \<Rightarrow> string \<Rightarrow> real \<Rightarrow> memory_row list \<Rightarrow> string \<times> memory_row list" where
  "store sha256_hex dimension now content' type' source' importance' rows =
     (let id' = take 12 (sha256_hex content');
          embedding' = embed dimension content';
          new = \<lparr>row_id = id', content = content', embedding = embedding',
                 row_type = type', source = source', importance = importance',
                 created_at = now, access_count = 0, last_accessed = now\<rparr>
      in (id', insert_or_replace new rows))"




text \<open>\<^verbatim>\<open>xs.slice(0, end)\<close> for an integer \<^verbatim>\<open>end\<close>: a negative end counts from the back.\<close>

definition slice0 :: "int \<Rightarrow> 'a list \<Rightarrow> 'a list" where
  "slice0 end' xs =
     (if end' < 0 then take (nat (int (length xs) + end')) xs else take (nat end') xs)"

text \<open>
  \<^verbatim>\<open>UPDATE memories SET access_count = access_count + 1, last_accessed = ? WHERE id = ?\<close>
\<close>

definition touch :: "int \<Rightarrow> memory_row list \<Rightarrow> string \<Rightarrow> memory_row list" where
  "touch now rows id' =
     map (\<lambda>r. if row_id r = id'
              then r\<lparr>access_count := access_count r + 1, last_accessed := now\<rparr>
              else r) rows"




text \<open>\<^verbatim>\<open>delete(id)\<close>: whether a row was deleted, and the table afterwards.\<close>

definition delete :: "string \<Rightarrow> memory_row list \<Rightarrow> bool \<times> memory_row list" where
  "delete id' rows =
     (length (filter (\<lambda>r. row_id r = id') rows) > 0, filter (\<lambda>r. row_id r \<noteq> id') rows)"

text \<open>
  \<^verbatim>\<open>DELETE FROM memories WHERE ...\<close> run over the rows in scan order: the number of rows
  deleted (\<^verbatim>\<open>changes\<close>) and the rows kept.
\<close>

fun delete_where :: "(memory_row \<Rightarrow> bool) \<Rightarrow> memory_row list \<Rightarrow> nat \<times> memory_row list" where
  "delete_where cond [] = (0, [])"
| "delete_where cond (r # rows) =
     (case delete_where cond rows of
        (changes, kept) \<Rightarrow> if cond r then (Suc changes, kept) else (changes, r # kept))"

text \<open>
  \<^verbatim>\<open>decay(maxAgeDays)\<close>: the cutoff is \<^verbatim>\<open>Date.now() - maxAgeDays * 24 * 60 * 60 * 1000\<close>;
  the two floors 0.7 and 3 are constants of the SQL statement, not arguments.
\<close>

definition decay :: "int \<Rightarrow> int \<Rightarrow> memory_row list \<Rightarrow> nat \<times> memory_row list" where
  "decay now maxAgeDays rows =
     (let cutoff = now - maxAgeDays * 24 * 60 * 60 * 1000
      in delete_where
           (\<lambda>r. last_accessed r < cutoff \<and> importance r < 0.7 \<and> access_count r < 3) rows)"

section \<open>The Working Context Buffer: ShortTermMemory of memory.ts\<close>

text \<open>The roles of \<^verbatim>\<open>ChatCompletionMessageParam\<close>.\<close>

datatype role = Developer | System | User | Assistant | Tool | Function

text \<open>
  The content of a message is a string, an array of parts (a part has a \<^verbatim>\<open>text\<close> or
  not), or absent; an assistant message may carry \<^verbatim>\<open>tool_calls\<close>.
\<close>

datatype content_part = TextPart string | NonTextPart

datatype message_content = Str string | Parts "content_part list" | Absent

record tool_call =
  fn_name :: string
  fn_arguments :: string

record message =
  role :: role
  msg_content :: message_content
  tool_calls :: "tool_call list option"

record TrackedMessage =
  message :: message
  timestamp :: int
  tokenEstimate :: nat

text \<open>\<^verbatim>\<open>parts.join(sep)\<close>\<close>

fun join :: "string \<Rightarrow> string list \<Rightarrow> string" where
  "join sep [] = []"
| "join sep [x] = x"
| "join sep (x # y # ys) = x @ sep @ join sep (y # ys)"

definition extractContent :: "message \<Rightarrow> string" where
  "extractContent m =
     (case msg_content m of
        Str s \<Rightarrow> s
      | Parts ps \<Rightarrow>
          join '' '' (map (\<lambda>part. case part of TextPart t \<Rightarrow> t | NonTextPart \<Rightarrow> ''[non-text]'') ps)
      | Absent \<Rightarrow>
          (case tool_calls m of
             Some tcs \<Rightarrow>
               join ''; '' (map (\<lambda>tc. fn_name tc @ ''('' @ fn_arguments tc @ '')'') tcs)
           | None \<Rightarrow> []))"

text \<open>\<^verbatim>\<open>Math.ceil(text.length / 4)\<close>\<close>

definition estimateTokens :: "string \<Rightarrow> nat" where
  "estimateTokens text = (length text + 3) div 4"

definition getTokenCount :: "TrackedMessage list \<Rightarrow> nat" where
  "getTokenCount messages = foldl (\<lambda>sum m. sum + tokenEstimate m) 0 messages"

text \<open>The body of the first loop of \<^verbatim>\<open>compactIfNeeded\<close>, for one tracked message.\<close>

definition truncate_tool :: "TrackedMessage \<Rightarrow> TrackedMessage" where
  "truncate_tool tracked =
     (if role (message tracked) = Tool \<and> tokenEstimate tracked > 300
      then
        let content' = extractContent (message tracked);
            truncated = take 500 content' @ CHR 0x0A # ''...[truncated for brevity]''
        in tracked\<lparr>message := (message tracked)\<lparr>msg_content := Str truncated\<rparr>,
                   tokenEstimate := estimateTokens truncated\<rparr>
      else tracked)"

text \<open>The first loop: \<^verbatim>\<open>for (let i = 1; i < this.messages.length - 6; i++)\<close>.\<close>

definition truncate_old_tools :: "TrackedMessage list \<Rightarrow> TrackedMessage list" where
  "truncate_old_tools messages =
     map (\<lambda>(i, tracked). if 1 \<le> i \<and> i + 6 < length messages then truncate_tool tracked
                          else tracked)
       (enumerate 0 messages)"

text \<open>The decimal numeral of a template string \<^verbatim>\<open>${dropped}\<close>.\<close>

fun show_nat :: "nat \<Rightarrow> string" where
  "show_nat n =
     (if n < 10 then [char_of (48 + n)] else show_nat (n div 10) @ [char_of (48 + n mod 10)])"

declare show_nat.simps [simp del]

definition marker :: "int \<Rightarrow> nat \<Rightarrow> TrackedMessage" where
  "marker now dropped =
     \<lparr>message =
        \<lparr>role = System,
         msg_content =
           Str (''['' @ show_nat dropped @ '' earlier messages omitted for context length]''),
         tool_calls = None\<rparr>,
      timestamp = now, tokenEstimate = 20\<rparr>"

text \<open>
  \<^verbatim>\<open>compactIfNeeded()\<close>: nothing within the budget; otherwise the truncation loop, and if
  the buffer is still over the budget and longer than 3 + 8 messages, the first 3, the
  marker and the last 8.
\<close>

definition compactIfNeeded :: "int \<Rightarrow> nat \<Rightarrow> TrackedMessage list \<Rightarrow> TrackedMessage list" where
  "compactIfNeeded now maxTokens messages =
     (if getTokenCount messages \<le> maxTokens then messages
      else
        let messages1 = truncate_old_tools messages
        in if getTokenCount messages1 > maxTokens
           then
             let keep = 3; keepEnd = 8
             in if length messages1 > keep + keepEnd
                then
                  let head = take keep messages1;
                      tail = drop (length messages1 - keepEnd) messages1;
                      dropped = length messages1 - keep - keepEnd
                  in head @ [marker now dropped] @ tail
                else messages1
           else messages1)"

text \<open>The constructor and \<^verbatim>\<open>add(message)\<close>.\<close>

definition new_ShortTermMemory :: "int \<Rightarrow> string \<Rightarrow> TrackedMessage list" where
  "new_ShortTermMemory now systemPrompt =
     [\<lparr>message = \<lparr>role = System, msg_content = Str systemPrompt, tool_calls = None\<rparr>,
       timestamp = now, tokenEstimate = estimateTokens systemPrompt\<rparr>]"

definition add :: "int \<Rightarrow> nat \<Rightarrow> message \<Rightarrow> TrackedMessage list \<Rightarrow> TrackedMessage list" where
  "add now maxTokens m messages =
     compactIfNeeded now maxTokens
       (messages @ [\<lparr>message = m, timestamp = now,
                     tokenEstimate = estimateTokens (extractContent m)\<rparr>])"

section \<open>The listings of guide/03-memory.md\<close>

subsection \<open>LongTermMemory of the guide\<close>

text \<open>
  \<^verbatim>\<open>localEmbedding\<close>: as \<^const>\<open>embed\<close>, but every piece of the split is hashed, the empty
  one and the one-letter ones too.
\<close>

definition localEmbedding :: "nat \<Rightarrow> string \<Rightarrow> real list" where
  "localEmbedding embeddingDimension text =
     (let normalized = trim (toLowerCase text);
          embedding0 = replicate embeddingDimension 0;
          embedding1 = foldl (bump embeddingDimension 1) embedding0 (trigrams normalized);
          embedding2 = foldl (bump embeddingDimension 2) embedding1 (split_ws normalized)
      in l2_normalize embedding2)"

text \<open>
  \<^verbatim>\<open>getEmbedding\<close>: the embeddings API when \<^verbatim>\<open>OPENAI_API_KEY\<close> is set (the API is a
  parameter), the local embedding otherwise.
\<close>

definition getEmbedding :: "(string \<Rightarrow> real list) option \<Rightarrow> nat \<Rightarrow> string \<Rightarrow> real list" where
  "getEmbedding openai embeddingDimension text =
     (case openai of Some api \<Rightarrow> api text | None \<Rightarrow> localEmbedding embeddingDimension text)"

datatype guide_error = VectorLengthMismatch

definition cosineSimilarity_guide :: "real list \<Rightarrow> real list \<Rightarrow> guide_error + real" where
  "cosineSimilarity_guide a b =
     (if length a \<noteq> length b then Inl VectorLengthMismatch
      else
        let dotProduct = dot_product a b;
            magnitudeA = sqrt (sum_squares a);
            magnitudeB = sqrt (sum_squares b)
        in if magnitudeA = 0 \<or> magnitudeB = 0 then Inr 0
           else Inr (dotProduct / (magnitudeA * magnitudeB)))"

text \<open>
  \<^verbatim>\<open>store\<close> of the guide: 16 hex digits; the column \<^verbatim>\<open>access_count\<close> takes its default 0.
\<close>

definition store_guide ::
  "(string \<Rightarrow> string) \<Rightarrow> (string \<Rightarrow> real list) option \<Rightarrow> nat \<Rightarrow> int \<Rightarrow>
   string \<Rightarrow> memory_type \<Rightarrow> string \<Rightarrow> real \<Rightarrow> memory_row list \<Rightarrow> string \<times> memory_row list" where
  "store_guide sha256_hex openai embeddingDimension now content' type' source' importance' rows =
     (let id' = take 16 (sha256_hex content');
          embedding' = getEmbedding openai embeddingDimension content';
          new = \<lparr>row_id = id', content = content', embedding = embedding',
                 row_type = type', source = source', importance = importance',
                 created_at = now, access_count = 0, last_accessed = now\<rparr>
      in (id', insert_or_replace new rows))"

text \<open>
  A \<^verbatim>\<open>MemoryEntry\<close> has the fields of its row, so a result of the guide's \<^verbatim>\<open>search\<close> is
  the row and its boosted similarity.
\<close>

record SearchResult_guide =
  entry :: memory_row
  similarity_guide :: real

text \<open>
  The callback of \<^verbatim>\<open>rows.map\<close> in the guide's \<^verbatim>\<open>search\<close>, row by row: the first length
  mismatch throws.
\<close>

fun score_rows :: "int \<Rightarrow> real list \<Rightarrow> memory_row list \<Rightarrow> guide_error + SearchResult_guide list" where
  "score_rows now queryEmbedding [] = Inr []"
| "score_rows now queryEmbedding (row # rows) =
     (case cosineSimilarity_guide queryEmbedding (embedding row) of
        Inl e \<Rightarrow> Inl e
      | Inr similarity' \<Rightarrow>
          let recencyBoost =
                max 0 (1 - real_of_int (now - last_accessed row) / (30 * 24 * 60 * 60 * 1000));
              boostedSimilarity =
                similarity' * 0.7 + importance row * 0.2 + recencyBoost * 0.1
          in (case score_rows now queryEmbedding rows of
                Inl e \<Rightarrow> Inl e
              | Inr rs \<Rightarrow> Inr (\<lparr>entry = row, similarity_guide = boostedSimilarity\<rparr> # rs)))"

text \<open>\<^verbatim>\<open>search(query, {limit, type, minSimilarity})\<close> of the guide.\<close>

definition search_guide ::
  "(string \<Rightarrow> real list) option \<Rightarrow> nat \<Rightarrow> int \<Rightarrow>
   string \<Rightarrow> int \<Rightarrow> memory_type option \<Rightarrow> real \<Rightarrow> memory_row list \<Rightarrow>
   guide_error + SearchResult_guide list \<times> memory_row list" where
  "search_guide openai embeddingDimension now query limit type' minSimilarity rows =
     (let queryEmbedding = getEmbedding openai embeddingDimension query;
          candidates = (case type' of None \<Rightarrow> rows
                        | Some t \<Rightarrow> filter (\<lambda>r. row_type r = t) rows)
      in case score_rows now queryEmbedding candidates of
           Inl e \<Rightarrow> Inl e
         | Inr scored \<Rightarrow>
             let results =
                   slice0 limit
                     (sort_key (\<lambda>r. - similarity_guide r)
                        (filter (\<lambda>r. similarity_guide r \<ge> minSimilarity) scored))
             in Inr (results, foldl (touch now) rows (map (\<lambda>r. row_id (entry r)) results)))"

text \<open>\<^verbatim>\<open>decay(maxAge)\<close> of the guide: the age in milliseconds, the floors 0.8 and 3.\<close>

definition decay_guide :: "int \<Rightarrow> int \<Rightarrow> memory_row list \<Rightarrow> nat \<times> memory_row list" where
  "decay_guide now maxAge rows =
     (let cutoff = now - maxAge
      in delete_where
           (\<lambda>r. last_accessed r < cutoff \<and> importance r < 0.8 \<and> access_count r < 3) rows)"

text \<open>
  The pattern \<^verbatim>\<open>storeIfNew(memory, content, type, source)\<close>: a search for the content
  itself with limit 1 and threshold 0.85, and \<^verbatim>\<open>store\<close> (importance 0.5, its default)
  only when nothing was found.
\<close>

definition storeIfNew ::
  "(string \<Rightarrow> string) \<Rightarrow> (string \<Rightarrow> real list) option \<Rightarrow> nat \<Rightarrow> int \<Rightarrow>
   string \<Rightarrow> memory_type \<Rightarrow> string \<Rightarrow> memory_row list \<Rightarrow> guide_error + bool \<times> memory_row list" where
  "storeIfNew sha256_hex openai embeddingDimension now content' type' source' rows =
     (case search_guide openai embeddingDimension now content' 1 None 0.85 rows of
        Inl e \<Rightarrow> Inl e
      | Inr (existing, rows1) \<Rightarrow>
          if length existing > 0 then Inr (False, rows1)
          else Inr (True,
                 snd (store_guide sha256_hex openai embeddingDimension now
                        content' type' source' 0.5 rows1)))"

subsection \<open>AgentMemory of the guide\<close>

text \<open>
  An entry of the array \<^verbatim>\<open>memories\<close> in the extractor's JSON answer; a missing importance
  leaves \<^verbatim>\<open>store\<close> its default 0.5.
\<close>

record candidate =
  cand_content :: string
  cand_type :: memory_type
  cand_importance :: "real option"

text \<open>
  \<^verbatim>\<open>processResponse\<close> after the model call and \<^verbatim>\<open>JSON.parse\<close>: \<^verbatim>\<open>extracted\<close> is the parsed
  field \<^verbatim>\<open>memories\<close> (\<^const>\<open>None\<close> when it is missing), \<^verbatim>\<open>today\<close> the date part of
  \<^verbatim>\<open>new Date().toISOString()\<close>. The loop calls \<^verbatim>\<open>this.longTerm.store\<close> for every entry;
  the result is the table afterwards.
\<close>

definition processResponse ::
  "(string \<Rightarrow> string) \<Rightarrow> (string \<Rightarrow> real list) option \<Rightarrow> nat \<Rightarrow> int \<Rightarrow> string \<Rightarrow>
   candidate list option \<Rightarrow> memory_row list \<Rightarrow> memory_row list" where
  "processResponse sha256_hex openai embeddingDimension now today extracted rows =
     foldl
       (\<lambda>rows' mem.
          snd (store_guide sha256_hex openai embeddingDimension now
                 (cand_content mem) (cand_type mem) (''conversation-'' @ today)
                 (case cand_importance mem of Some v \<Rightarrow> v | None \<Rightarrow> 0.5) rows'))
       rows
       (case extracted of Some mems \<Rightarrow> mems | None \<Rightarrow> [])"

text \<open>The interface \<^verbatim>\<open>Message\<close> of the guide's ShortTermMemory and its two views.\<close>

datatype importance_level = Low | Medium | High

record Message =
  m_role :: role
  m_content :: string
  m_name :: "string option"
  toolCallId :: "string option"
  m_timestamp :: int
  metadata :: "(nat \<times> importance_level) option"

record api_message =
  api_role :: role
  api_content :: string
  tool_call_id :: "string option"

definition getMessages :: "Message list \<Rightarrow> Message list" where
  "getMessages messages = messages"

definition getForAPI :: "Message list \<Rightarrow> api_message list" where
  "getForAPI messages =
     map (\<lambda>m. \<lparr>api_role = m_role m, api_content = m_content m,
                tool_call_id = (case toolCallId m of
                                  Some t \<Rightarrow> if t = [] then None else Some t
                                | None \<Rightarrow> None)\<rparr>) messages"

datatype outcome = Success | Partial | Failed | Abandoned

record Episode =
  ep_id :: string
  sessionId :: string
  ep_summary :: string
  startedAt :: int
  endedAt :: int
  userGoal :: "string option"
  ep_outcome :: outcome
  toolsUsed :: "string list"
  topicsDiscussed :: "string list"
  lessonsLearned :: "string list option"

definition type_name :: "memory_type \<Rightarrow> string" where
  "type_name t =
     (case t of Fact \<Rightarrow> ''fact'' | Preference \<Rightarrow> ''preference'' | Procedure \<Rightarrow> ''procedure''
      | Note \<Rightarrow> ''note'' | Entity \<Rightarrow> ''entity'')"

definition outcome_name :: "outcome \<Rightarrow> string" where
  "outcome_name out =
     (case out of Success \<Rightarrow> ''success'' | Partial \<Rightarrow> ''partial'' | Failed \<Rightarrow> ''failed''
      | Abandoned \<Rightarrow> ''abandoned'')"

abbreviation NL :: string where
  "NL \<equiv> [CHR 0x0A]"

text \<open>
  What \<^verbatim>\<open>buildContext\<close> returns: the result of \<^verbatim>\<open>getForAPI()\<close> with the context message
  spliced in, or the result of \<^verbatim>\<open>getMessages()\<close>.
\<close>

datatype built_context = WithContext "api_message list" | Buffer "Message list"

text \<open>
  \<^verbatim>\<open>buildContext(userMessage)\<close> after its three queries:
  \<^verbatim>\<open>relevantMemories = await this.longTerm.search(userMessage, {limit: 5})\<close>,
  \<^verbatim>\<open>relevantEpisodes = this.episodic.searchEpisodes(userMessage, 3)\<close> and
  \<^verbatim>\<open>lessons = this.episodic.getLessons()\<close>. \<^verbatim>\<open>toLocaleDateString\<close> depends on the locale and
  is a parameter; \<^verbatim>\<open>messages\<close> is the buffer of \<^verbatim>\<open>this.shortTerm\<close>.
\<close>

definition buildContext ::
  "(int \<Rightarrow> string) \<Rightarrow> SearchResult_guide list \<Rightarrow> Episode list \<Rightarrow> string list \<Rightarrow>
   Message list \<Rightarrow> built_context" where
  "buildContext toLocaleDateString relevantMemories relevantEpisodes lessons messages =
     (let contextInjection0 = [];
          contextInjection1 =
            (if length relevantMemories > 0
             then contextInjection0 @ NL @ NL @ ''## Relevant Information from Memory'' @ NL @
                  concat (map (\<lambda>mem. ''- ['' @ type_name (row_type (entry mem)) @ ''] '' @
                                      content (entry mem) @ NL) relevantMemories)
             else contextInjection0);
          contextInjection2 =
            (if length relevantEpisodes > 0
             then contextInjection1 @ NL @ NL @ ''## Relevant Past Sessions'' @ NL @
                  concat (map (\<lambda>ep. ''- ['' @ toLocaleDateString (startedAt ep) @ ''] '' @
                                     ep_summary ep @ '' (outcome: '' @
                                     outcome_name (ep_outcome ep) @ '')'' @ NL)
                            relevantEpisodes)
             else contextInjection1);
          contextInjection3 =
            (if length lessons > 0
             then contextInjection2 @ NL @ NL @ ''## Lessons Learned'' @ NL @
                  concat (map (\<lambda>lesson. ''- '' @ lesson @ NL)
                            (drop (length lessons - 10) lessons))
             else contextInjection2)
      in if contextInjection3 \<noteq> []
         then
           let msgs = getForAPI messages
           in WithContext
                (take 1 msgs @
                 [\<lparr>api_role = System,
                   api_content = ''Context from your memory:'' @ contextInjection3,
                   tool_call_id = None\<rparr>] @
                 drop 1 msgs)
         else Buffer (getMessages messages))"

section \<open>Example inputs\<close>

text \<open>
  The SHA-256 hex digests of the strings that the examples below store, as
  \<^verbatim>\<open>createHash('sha256').update(s).digest('hex')\<close> gives them. The theorems hold for every
  digest function; the examples instantiate it with this table.
\<close>

definition sha256_hex_table :: "string \<Rightarrow> string" where
  "sha256_hex_table s =
     (if s = [] then ''e3b0c44298fc1c149afbf4c8996fb92427ae41e4649b934ca495991b7852b855''
      else if s = ''a'' then ''ca978112ca1bbdcafac231b39a23dc4da786eff8147c4e72b9807785afee48bb''
      else if s = ''b'' then ''3e23e8160039594a33894f6564e1b1348bbd7a0088d42c4acb73eeaed59c009d''
      else if s = ''ab'' then ''fb8e20fc2e4c3f248c60c39bd652f3c1347298bb977b8b4d5903b85055620603''
      else if s = ''User prefers dark mode''
        then ''cb41542b3bdcaddb3f112b99e775536cb5fa1b2109dad094be11b5c60c1a31f0''
      else [])"

text \<open>A row as \<^verbatim>\<open>store("a", "fact", "s0", 0.5)\<close> writes it at time 500, later read 4 times.\<close>

definition row_a :: memory_row where
  "row_a = \<lparr>row_id = ''ca978112ca1b'', content = ''a'', embedding = replicate 256 0,
            row_type = Fact, source = ''s0'', importance = 0.5,
            created_at = 500, access_count = 4, last_accessed = 900\<rparr>"

text \<open>A row for \<^verbatim>\<open>"b"\<close>, written at time 1500 and never read.\<close>

definition row_b :: memory_row where
  "row_b = \<lparr>row_id = ''3e23e8160039'', content = ''b'', embedding = replicate 256 0,
            row_type = Fact, source = ''s0'', importance = 0.5,
            created_at = 1500, access_count = 0, last_accessed = 1500\<rparr>"

text \<open>A row as \<^verbatim>\<open>store("ab", "procedure", "s0", 0.9)\<close> writes it at time 100.\<close>

definition row_ab :: memory_row where
  "row_ab = \<lparr>row_id = ''fb8e20fc2e4c'', content = ''ab'', embedding = embed 256 ''ab'',
             row_type = Procedure, source = ''s0'', importance = 0.9,
             created_at = 100, access_count = 0, last_accessed = 100\<rparr>"

text \<open>
  A row as the guide's \<^verbatim>\<open>store("ab", "fact", "conversation-2026-01-01", 0.5)\<close> writes it
  at time 1000 with the local embedding of dimension 384, later read 3 times.
\<close>

definition row_guide :: memory_row where
  "row_guide = \<lparr>row_id = ''fb8e20fc2e4c3f24'', content = ''ab'',
                embedding = localEmbedding 384 ''ab'',
                row_type = Fact, source = ''conversation-2026-01-01'', importance = 0.5,
                created_at = 1000, access_count = 3, last_accessed = 1500\<rparr>"

text \<open>A user message of two letters, estimated at one token.\<close>

definition hi :: message where
  "hi = \<lparr>role = User, msg_content = Str ''hi'', tool_calls = None\<rparr>"

text \<open>
  The buffer that the eleventh \<^verbatim>\<open>add\<close> of such a message, after a one-letter system prompt,
  hands to \<^verbatim>\<open>compactIfNeeded\<close>: 12 messages of one token each.
\<close>

definition chatty_buffer :: "TrackedMessage list" where
  "chatty_buffer =
     new_ShortTermMemory 0 ''s'' @
     replicate 11 \<lparr>message = hi, timestamp = 0, tokenEstimate = 1\<rparr>"

text \<open>The same with a fourth message of 100 letters, estimated at 25 tokens.\<close>

definition long_buffer :: "TrackedMessage list" where
  "long_buffer =
     new_ShortTermMemory 0 ''s'' @
     replicate 2 \<lparr>message = hi, timestamp = 0, tokenEstimate = 1\<rparr> @
     [\<lparr>message = \<lparr>role = User, msg_content = Str (replicate 100 CHR ''x''), tool_calls = None\<rparr>,
       timestamp = 0, tokenEstimate = 25\<rparr>] @
     replicate 8 \<lparr>message = hi, timestamp = 0, tokenEstimate = 1\<rparr>"

text \<open>A buffer of the guide's ShortTermMemory that holds the system prompt only.\<close>

definition system_message :: Message where
  "system_message = \<lparr>m_role = System, m_content = ''You are a helpful assistant.'',
     m_name = None, toolCallId = None, m_timestamp = 0, metadata = Some (7, High)\<rparr>"

section \<open>Facts about the embedding and the similarity\<close>

lemma sum_squares_nonneg: "0 \<le> sum_squares v"
  by (induction v) (auto simp: sum_squares_def)

lemma sum_squares_zero_iff: "sum_squares v = 0 \<longleftrightarrow> v = replicate (length v) 0"
proof (induction v)
  case Nil
  then show ?case by (simp add: sum_squares_def)
next
  case (Cons x v)
  have "0 \<le> sum_squares v" by (rule sum_squares_nonneg)
  moreover have "sum_squares (x # v) = x * x + sum_squares v" by (simp add: sum_squares_def)
  moreover have "0 \<le> x * x" by simp
  ultimately have "sum_squares (x # v) = 0 \<longleftrightarrow> x = 0 \<and> sum_squares v = 0"
    by (smt (verit) mult_eq_0_iff)
  with Cons show ?case by simp
qed

lemma dot_product_self: "dot_product a a = sum_squares a"
  by (simp add: dot_product_def sum_squares_def zip_same_conv_map o_def)


lemma sum_squares_scale: "sum_squares (map (\<lambda>x. x / m) v) = sum_squares v / (m * m)"
  by (induction v) (auto simp: sum_squares_def add_divide_distrib)


lemma sum_squares_l2_normalize:
  "sum_squares (l2_normalize vec) = (if vec = replicate (length vec) 0 then 0 else 1)"
proof -
  let ?v = "map real_of_int vec"
  have z: "sum_squares ?v = 0 \<longleftrightarrow> vec = replicate (length vec) 0"
    by (auto simp: sum_squares_zero_iff map_replicate_const list_eq_iff_nth_eq)
  have nn: "0 \<le> sum_squares ?v" by (rule sum_squares_nonneg)
  show ?thesis
  proof (cases "sum_squares ?v = 0")
    case True
    then show ?thesis using z by (simp add: l2_normalize_def Let_def)
  next
    case False
    then have pos: "0 < sqrt (sum_squares ?v)" using nn by simp
    have mm: "sqrt (sum_squares ?v) * sqrt (sum_squares ?v) = sum_squares ?v" using nn by simp
    have "sum_squares (map (\<lambda>x. x / sqrt (sum_squares ?v)) ?v) =
          sum_squares ?v / (sqrt (sum_squares ?v) * sqrt (sum_squares ?v))"
      by (rule sum_squares_scale)
    also have "\<dots> = 1" unfolding mm using False by simp
    finally have "sum_squares (map (\<lambda>x. x / sqrt (sum_squares ?v)) ?v) = 1" .
    then show ?thesis using pos False z by (simp add: l2_normalize_def Let_def)
  qed
qed

lemma l2_normalize_zero: "l2_normalize (replicate n 0) = replicate n 0"
  by (simp add: l2_normalize_def Let_def sum_squares_def)





lemma accumulate_short:
  "accumulate D ''a'' = replicate D 0" "accumulate D [] = replicate D 0"
  by (simp_all add: accumulate_def trim_def toLowerCase_def lower_char_def is_space_def
      split_ws_def)







lemma embed_zero: "accumulate D x = replicate D 0 \<Longrightarrow> embed D x = replicate D 0"
  by (simp add: embed_def l2_normalize_zero)

lemma embed_empty: "embed D [] = replicate D 0"
  by (simp add: embed_zero accumulate_short)


text \<open>The text \<^verbatim>\<open>"ab"\<close>: no trigram, one word, whose hash 3105 is positive and falls on index 33.\<close>

lemma hash_ab: "hash ''ab'' = 3105"
  by (simp add: hash_def)




section \<open>Facts about the Semantic Store\<close>






lemma delete_where_filter:
  "delete_where cond rows = (length (filter cond rows), filter (\<lambda>r. \<not> cond r) rows)"
  by (induction rows) (auto split: prod.splits)












section \<open>Claims about the Semantic Store\<close>



text \<open>
  Claim C3, as stated, fails: \<^verbatim>\<open>store\<close> has no check of its content. Storing the empty
  string into the empty table returns the id \<^verbatim>\<open>e3b0c44298fc\<close> and inserts a row.
\<close>

theorem store_empty_content_counterexample:
  "store sha256_hex_table 256 1000 [] Note [] 0.5 [] =
     (''e3b0c44298fc'',
      [\<lparr>row_id = ''e3b0c44298fc'', content = [], embedding = replicate 256 0,
        row_type = Note, source = [], importance = 0.5,
        created_at = 1000, access_count = 0, last_accessed = 1000\<rparr>])"
  by (simp add: store_def Let_def insert_or_replace_def sha256_hex_table_def embed_empty)

text \<open>
  Claim C3, amended. \<^verbatim>\<open>store\<close> treats the empty content as any other: it returns the
  first 12 hex digits of the digest of the empty string, and afterwards the table holds
  exactly one row with that id, whose content is empty, whose embedding is the zero
  vector and whose access count is 0.
\<close>

theorem store_empty_content_inserts:
  "fst (store sha256_hex D now [] ty src imp rows) = take 12 (sha256_hex []) \<and>
   filter (\<lambda>r. row_id r = take 12 (sha256_hex []))
       (snd (store sha256_hex D now [] ty src imp rows)) =
     [\<lparr>row_id = take 12 (sha256_hex []), content = [], embedding = replicate D 0,
       row_type = ty, source = src, importance = imp,
       created_at = now, access_count = 0, last_accessed = now\<rparr>]"
  by (simp add: store_def Let_def insert_or_replace_def embed_empty)

text \<open>The empty content stored into a table that holds the row for \<^verbatim>\<open>"a"\<close>.\<close>

theorem store_empty_content_inserts_witness:
  "fst (store sha256_hex_table 256 1000 [] Note [] 0.5 [row_a]) = ''e3b0c44298fc'' \<and>
   filter (\<lambda>r. row_id r = ''e3b0c44298fc'')
       (snd (store sha256_hex_table 256 1000 [] Note [] 0.5 [row_a])) =
     [\<lparr>row_id = ''e3b0c44298fc'', content = [], embedding = replicate 256 0,
       row_type = Note, source = [], importance = 0.5,
       created_at = 1000, access_count = 0, last_accessed = 1000\<rparr>]"
  using store_empty_content_inserts [of sha256_hex_table 256 1000 Note "[]" "0.5" "[row_a]"]
  by (simp add: sha256_hex_table_def)




text \<open>
  Claim C4, as stated, fails: \<^verbatim>\<open>decay\<close> has one argument, and the floors 0.7 and 3 cannot
  be raised. At time 10000000000, \<^verbatim>\<open>decay(0)\<close> deletes the row for \<^verbatim>\<open>"b"\<close> only: the row
  for \<^verbatim>\<open>"ab"\<close> (importance 0.9, less than 1.0) and the row for \<^verbatim>\<open>"a"\<close> (importance 0.5, read 4
  times) stay.
\<close>

theorem decay_floors_counterexample:
  "decay 10000000000 0 [row_ab, row_a, row_b] = (1, [row_ab, row_a])"
  by (simp add: decay_def Let_def row_ab_def row_a_def row_b_def)

text \<open>
  Claim C4, amended. \<^verbatim>\<open>decay(maxAgeDays)\<close> deletes exactly the rows that satisfy all of:
  last access more than \<^verbatim>\<open>maxAgeDays\<close> days (of 86400000 ms) ago, importance below 0.7,
  access count below 3; it keeps the others in their order and returns the number of
  rows deleted. The guide's \<^verbatim>\<open>decay(maxAge)\<close> does the same with an age in milliseconds
  and the importance floor 0.8.
\<close>

theorem decay_deletes_fixed_floors:
  "decay now maxAgeDays rows =
     (length (filter (\<lambda>r. now - last_accessed r > maxAgeDays * 86400000 \<and>
                          importance r < 0.7 \<and> access_count r < 3) rows),
      filter (\<lambda>r. \<not> (now - last_accessed r > maxAgeDays * 86400000 \<and>
                       importance r < 0.7 \<and> access_count r < 3)) rows) \<and>
   decay_guide now maxAge rows =
     (length (filter (\<lambda>r. now - last_accessed r > maxAge \<and>
                          importance r < 0.8 \<and> access_count r < 3) rows),
      filter (\<lambda>r. \<not> (now - last_accessed r > maxAge \<and>
                       importance r < 0.8 \<and> access_count r < 3)) rows)"
proof -
  have eq: "(last_accessed r < now - maxAgeDays * 24 * 60 * 60 * 1000 \<and>
             importance r < 0.7 \<and> access_count r < 3) =
            (now - last_accessed r > maxAgeDays * 86400000 \<and>
             importance r < 0.7 \<and> access_count r < 3)" for r
    by auto
  have eq_guide: "(last_accessed r < now - maxAge \<and> importance r < 0.8 \<and> access_count r < 3) =
            (now - last_accessed r > maxAge \<and> importance r < 0.8 \<and> access_count r < 3)" for r
    by auto
  show ?thesis
    unfolding decay_def decay_guide_def Let_def delete_where_filter eq eq_guide by simp
qed

text \<open>Ninety days, in days and in milliseconds, at time 10000000000.\<close>

theorem decay_deletes_fixed_floors_witness:
  "decay 10000000000 90 [row_ab, row_a, row_b] = (1, [row_ab, row_a]) \<and>
   decay_guide 10000000000 7776000000 [row_ab, row_a, row_b] = (1, [row_ab, row_a])"
  using decay_deletes_fixed_floors [of 10000000000 90 "[row_ab, row_a, row_b]" 7776000000]
  by (simp add: row_ab_def row_a_def row_b_def)

section \<open>Claims about the embedding\<close>







section \<open>Claims about the importance of a record\<close>



section \<open>Facts about the Working Context Buffer\<close>

lemma getTokenCount_sum: "getTokenCount ms = sum_list (map tokenEstimate ms)"
proof -
  have "foldl (\<lambda>sum m. sum + tokenEstimate m) a ms = a + sum_list (map tokenEstimate ms)" for a
    by (induction ms arbitrary: a) simp_all
  then show ?thesis by (simp add: getTokenCount_def)
qed

lemma truncate_tool_le: "tokenEstimate (truncate_tool t) \<le> tokenEstimate t"
proof (cases "role (message t) = Tool \<and> tokenEstimate t > 300")
  case True
  have "(30 + min (length (extractContent (message t))) 500) div 4 \<le> 300"
    by simp
  with True show ?thesis
    by (simp add: truncate_tool_def Let_def estimateTokens_def)
next
  case False
  then show ?thesis by (auto simp: truncate_tool_def)
qed

lemma sum_list_map_enumerate_le:
  fixes f :: "nat \<times> 'a \<Rightarrow> nat"
  assumes "\<And>i x. f (i, x) \<le> g x"
  shows "sum_list (map f (enumerate n xs)) \<le> sum_list (map g xs)"
proof (induction xs arbitrary: n)
  case Nil
  then show ?case by simp
next
  case (Cons a xs)
  have "f (n, a) \<le> g a" by (rule assms)
  moreover have "sum_list (map f (enumerate (Suc n) xs)) \<le> sum_list (map g xs)" by (rule Cons.IH)
  ultimately show ?case by simp
qed

lemma truncate_old_tools_le: "getTokenCount (truncate_old_tools ms) \<le> getTokenCount ms"
proof -
  have "sum_list (map (\<lambda>p. tokenEstimate ((\<lambda>(i, tracked). if 1 \<le> i \<and> i + 6 < length ms then truncate_tool tracked else tracked) p)) (enumerate 0 ms))
      \<le> sum_list (map tokenEstimate ms)"
    by (rule sum_list_map_enumerate_le) (simp add: truncate_tool_le)
  then show ?thesis
    by (simp add: getTokenCount_sum truncate_old_tools_def o_def)
qed

lemma length_truncate_old_tools: "length (truncate_old_tools ms) = length ms"
  by (simp add: truncate_old_tools_def)

lemma split3:
  assumes "11 < length xs"
  shows "xs = take 3 xs @ take (length xs - 11) (drop 3 xs) @ drop (length xs - 8) xs"
proof -
  have e: "length xs - 11 + 3 = length xs - 8" using assms by simp
  have "take (length xs - 11) (drop 3 xs) @ drop (length xs - 11) (drop 3 xs) = drop 3 xs"
    by (rule append_take_drop_id)
  then have "take (length xs - 11) (drop 3 xs) @ drop (length xs - 8) xs = drop 3 xs"
    by (simp add: e)
  then show ?thesis by simp
qed


lemma getTokenCount_append: "getTokenCount (xs @ ys) = getTokenCount xs + getTokenCount ys"
  by (simp add: getTokenCount_sum)

lemma getTokenCount_Cons: "getTokenCount (x # xs) = tokenEstimate x + getTokenCount xs"
  by (simp add: getTokenCount_sum)

lemma compactIfNeeded_count:
  "getTokenCount (compactIfNeeded now maxTokens ms) + 
     (if getTokenCount ms > maxTokens \<and> getTokenCount (truncate_old_tools ms) > maxTokens \<and> length ms > 11
      then getTokenCount (take (length ms - 11) (drop 3 (truncate_old_tools ms))) else 0) =
   (if getTokenCount ms \<le> maxTokens then getTokenCount ms
    else if getTokenCount (truncate_old_tools ms) > maxTokens \<and> length ms > 11
         then getTokenCount (truncate_old_tools ms) + 20
         else getTokenCount (truncate_old_tools ms))"
proof (cases "getTokenCount ms > maxTokens \<and> getTokenCount (truncate_old_tools ms) > maxTokens \<and> length ms > 11")
  case True
  let ?ms1 = "truncate_old_tools ms"
  have len: "11 < length ?ms1" using True by (simp add: length_truncate_old_tools)
  have "getTokenCount ?ms1 = getTokenCount (take 3 ?ms1) + getTokenCount (take (length ?ms1 - 11) (drop 3 ?ms1)) + getTokenCount (drop (length ?ms1 - 8) ?ms1)"
    using split3 [OF len] by (metis getTokenCount_append add.assoc)
  moreover have "compactIfNeeded now maxTokens ms = take 3 ?ms1 @ [marker now (length ?ms1 - 3 - 8)] @ drop (length ?ms1 - 8) ?ms1"
    using True len by (simp add: compactIfNeeded_def Let_def)
  moreover have "tokenEstimate (marker now n) = 20" for n
    by (simp add: marker_def)
  ultimately show ?thesis using True
    by (simp add: getTokenCount_append getTokenCount_Cons length_truncate_old_tools)
next
  case False
  then show ?thesis
    by (auto simp: compactIfNeeded_def Let_def length_truncate_old_tools)
qed

section \<open>Claims about the Working Context Buffer\<close>

text \<open>
  Claim C7, as stated, fails: the marker that replaces the dropped messages is estimated
  at 20 tokens, whatever was dropped. With a budget of 5 tokens, the eleventh \<^verbatim>\<open>add\<close> of a
  one-token message hands 12 tokens to \<^verbatim>\<open>compactIfNeeded\<close>, which drops one message of one
  token and leaves 31 tokens.
\<close>

theorem compaction_counterexample:
  "foldl (\<lambda>ms m. add 0 5 m ms) (new_ShortTermMemory 0 ''s'') (replicate 10 hi) @
     [\<lparr>message = hi, timestamp = 0, tokenEstimate = estimateTokens (extractContent hi)\<rparr>] =
     chatty_buffer \<and>
   getTokenCount chatty_buffer = 12 \<and>
   getTokenCount (compactIfNeeded 0 5 chatty_buffer) = 31"
proof (intro conjI)
  show "foldl (\<lambda>ms m. add 0 5 m ms) (new_ShortTermMemory 0 ''s'') (replicate 10 hi) @
     [\<lparr>message = hi, timestamp = 0, tokenEstimate = estimateTokens (extractContent hi)\<rparr>] =
     chatty_buffer"
    by code_simp
  show "getTokenCount chatty_buffer = 12"
    by code_simp
  show "getTokenCount (compactIfNeeded 0 5 chatty_buffer) = 31"
    by code_simp
qed

text \<open>
  Claim C7, amended. The truncation pass never increases the token estimate. The whole
  compaction increases it by at most 20, the fixed estimate of the marker; it does not
  increase it when the messages that the second pass would drop (those between the first
  3 and the last 8, after truncation) are estimated at 20 tokens or more together, nor
  when the buffer has at most 11 messages.
\<close>

theorem compaction_token_bound:
  "getTokenCount (truncate_old_tools ms) \<le> getTokenCount ms \<and>
   getTokenCount (compactIfNeeded now maxTokens ms) \<le> getTokenCount ms + 20 \<and>
   (20 \<le> getTokenCount (take (length ms - 11) (drop 3 (truncate_old_tools ms))) \<longrightarrow>
      getTokenCount (compactIfNeeded now maxTokens ms) \<le> getTokenCount ms) \<and>
   (length ms \<le> 11 \<longrightarrow>
      getTokenCount (compactIfNeeded now maxTokens ms) \<le> getTokenCount ms)"
  using compactIfNeeded_count [of now maxTokens ms] truncate_old_tools_le [of ms]
  by (auto split: if_splits)

text \<open>
  A buffer whose one dropped message is estimated at 25 tokens (36 tokens before, 31
  after), and the buffer of a fresh memory with the budget 0.
\<close>

theorem compaction_token_bound_witness:
  "20 \<le> getTokenCount (take (length long_buffer - 11) (drop 3 (truncate_old_tools long_buffer))) \<and>
   getTokenCount (compactIfNeeded 0 5 long_buffer) \<le> getTokenCount long_buffer \<and>
   length (new_ShortTermMemory 0 ''s'') \<le> 11 \<and>
   getTokenCount (compactIfNeeded 0 0 (new_ShortTermMemory 0 ''s''))
     \<le> getTokenCount (new_ShortTermMemory 0 ''s'')"
proof -
  have h1: "20 \<le> getTokenCount (take (length long_buffer - 11) (drop 3 (truncate_old_tools long_buffer)))"
    by code_simp
  have h2: "length (new_ShortTermMemory 0 ''s'') \<le> 11"
    by code_simp
  from h1 h2 compaction_token_bound [of long_buffer 0 5]
    compaction_token_bound [of "new_ShortTermMemory 0 ''s''" 0 0]
  show ?thesis by blast
qed

section \<open>Facts about the listings of the guide\<close>

lemma buildContext_empty: "buildContext fmt [] [] [] msgs = Buffer msgs"
  by (simp add: buildContext_def getMessages_def)

lemma processResponse_None: "processResponse sha openai D now today None rows = rows"
  by (simp add: processResponse_def)

lemma processResponse_Nil: "processResponse sha openai D now today (Some []) rows = rows"
  by (simp add: processResponse_def)

lemma processResponse_Cons:
  "processResponse sha openai D now today (Some (mem # mems)) rows =
     processResponse sha openai D now today (Some mems)
       (snd (store_guide sha openai D now (cand_content mem) (cand_type mem)
               (''conversation-'' @ today)
               (case cand_importance mem of Some v \<Rightarrow> v | None \<Rightarrow> 0.5) rows))"
  by (simp add: processResponse_def)

lemma store_guide_fresh:
  "\<exists>r. filter (\<lambda>r. row_id r = take 16 (sha c)) (snd (store_guide sha openai D now c ty src v rows)) = [r] \<and>
       access_count r = 0 \<and> created_at r = now \<and> last_accessed r = now"
  by (simp add: store_guide_def Let_def insert_or_replace_def)

lemma store_guide_keeps_fresh:
  assumes "\<exists>r. filter (\<lambda>r. row_id r = i) rows = [r] \<and>
       access_count r = 0 \<and> created_at r = now \<and> last_accessed r = now"
  shows "\<exists>r. filter (\<lambda>r. row_id r = i) (snd (store_guide sha openai D now c ty src v rows)) = [r] \<and>
       access_count r = 0 \<and> created_at r = now \<and> last_accessed r = now"
proof (cases "i = take 16 (sha c)")
  case True
  then show ?thesis using store_guide_fresh [of sha c openai D now ty src v rows] by simp
next
  case False
  have "filter (\<lambda>r. row_id r = i) (filter (\<lambda>r. row_id r \<noteq> take 16 (sha c)) rows) = filter (\<lambda>r. row_id r = i) rows"
    using False by (auto intro: filter_cong)
  then show ?thesis using assms False
    by (simp add: store_guide_def Let_def insert_or_replace_def)
qed

lemma processResponse_keeps_fresh:
  assumes "\<exists>r. filter (\<lambda>r. row_id r = i) rows = [r] \<and>
       access_count r = 0 \<and> created_at r = now \<and> last_accessed r = now"
  shows "\<exists>r. filter (\<lambda>r. row_id r = i) (processResponse sha openai D now today (Some mems) rows) = [r] \<and>
       access_count r = 0 \<and> created_at r = now \<and> last_accessed r = now"
  using assms
proof (induction mems arbitrary: rows)
  case Nil
  then show ?case by (simp add: processResponse_Nil)
next
  case (Cons mem mems)
  show ?case
    unfolding processResponse_Cons
    by (rule Cons.IH) (rule store_guide_keeps_fresh [OF Cons.prems])
qed

lemma processResponse_stores_all:
  "\<forall>mem\<in>set mems.
      \<exists>r. filter (\<lambda>r. row_id r = take 16 (sha (cand_content mem)))
             (processResponse sha openai D now today (Some mems) rows) = [r] \<and>
          access_count r = 0 \<and> created_at r = now \<and> last_accessed r = now"
proof (induction mems arbitrary: rows)
  case Nil
  then show ?case by simp
next
  case (Cons mem mems)
  show ?case
  proof
    fix x assume "x \<in> set (mem # mems)"
    then consider "x = mem" | "x \<in> set mems" by auto
    then show "\<exists>r. filter (\<lambda>r. row_id r = take 16 (sha (cand_content x)))
             (processResponse sha openai D now today (Some (mem # mems)) rows) = [r] \<and>
          access_count r = 0 \<and> created_at r = now \<and> last_accessed r = now"
    proof cases
      case 1
      show ?thesis
        unfolding processResponse_Cons 1
        by (rule processResponse_keeps_fresh) (rule store_guide_fresh)
    next
      case 2
      then show ?thesis
        unfolding processResponse_Cons using Cons.IH by blast
    qed
  qed
qed


lemma cosineSimilarity_guide_self_unit:
  "sum_squares e = 1 \<Longrightarrow> cosineSimilarity_guide e e = Inr 1"
  by (simp add: cosineSimilarity_guide_def Let_def dot_product_self)

lemma localEmbedding_ab: "localEmbedding 384 ''ab'' = l2_normalize ((replicate 384 0)[33 := 2])"
  by (simp add: localEmbedding_def bump_def hash_ab trim_def toLowerCase_def lower_char_def
      is_space_def split_ws_def)

lemma sum_squares_localEmbedding_ab: "sum_squares (localEmbedding 384 ''ab'') = 1"
proof -
  have "(replicate 384 (0::int))[33 := 2] \<noteq> replicate 384 0"
  proof
    assume "(replicate 384 (0::int))[33 := 2] = replicate 384 0"
    then have "(replicate 384 (0::int))[33 := 2] ! 33 = replicate 384 0 ! 33" by simp
    then show False by simp
  qed
  then show ?thesis
    by (simp add: localEmbedding_ab sum_squares_l2_normalize)
qed

lemma search_guide_hit:
  "search_guide None 384 2000 ''ab'' 1 None 0.85 [row_guide] =
     Inr ([\<lparr>entry = row_guide, similarity_guide = 0.7 + 0.1 + (1 - 500 / 2592000000) * 0.1\<rparr>],
          [row_guide\<lparr>access_count := 4, last_accessed := 2000\<rparr>])"
  by (simp add: search_guide_def getEmbedding_def Let_def row_guide_def
      cosineSimilarity_guide_self_unit sum_squares_localEmbedding_ab slice0_def touch_def)

text \<open>
  The pattern \<^verbatim>\<open>storeIfNew\<close> skips a candidate that the search finds; \<^verbatim>\<open>processResponse\<close>
  does not call it.
\<close>

lemma storeIfNew_hit:
  "storeIfNew sha256_hex_table None 384 2000 ''ab'' Fact ''conversation-2026-01-02'' [row_guide] =
     Inr (False, [row_guide\<lparr>access_count := 4, last_accessed := 2000\<rparr>])"
  unfolding storeIfNew_def search_guide_hit by simp

section \<open>Claims about the Memory Orchestrator\<close>

text \<open>
  Claim C8, as stated, fails: \<^verbatim>\<open>buildContext\<close> has a third source, the lessons of all
  episodes. With both searches empty and one lesson, a system message is inserted after
  the system prompt.
\<close>

theorem buildContext_lessons_counterexample:
  "buildContext (\<lambda>t. []) [] [] [''Check the port first''] [system_message] =
     WithContext
       [\<lparr>api_role = System, api_content = ''You are a helpful assistant.'', tool_call_id = None\<rparr>,
        \<lparr>api_role = System,
          api_content = ''Context from your memory:'' @ NL @ NL @ ''## Lessons Learned'' @ NL @
                        ''- Check the port first'' @ NL,
          tool_call_id = None\<rparr>]"
  by (simp add: buildContext_def getForAPI_def system_message_def Let_def)

text \<open>
  Claim C8, amended. \<^verbatim>\<open>buildContext\<close> returns the messages of the buffer unchanged exactly
  when both searches return nothing and there is no lesson; otherwise it returns the
  buffer's messages for the API with one system message, a non-empty context, inserted
  after the first message.
\<close>

theorem buildContext_no_op_iff:
  "(buildContext fmt mems eps lessons msgs = Buffer msgs) =
     (mems = [] \<and> eps = [] \<and> lessons = []) \<and>
   (\<exists>injection.
     injection \<noteq> [] \<and>
     buildContext fmt mems eps lessons msgs =
       (if mems = [] \<and> eps = [] \<and> lessons = [] then Buffer msgs
        else WithContext
               (take 1 (getForAPI msgs) @
                [\<lparr>api_role = System, api_content = ''Context from your memory:'' @ injection,
                  tool_call_id = None\<rparr>] @
                drop 1 (getForAPI msgs))))"
proof (cases "mems = [] \<and> eps = [] \<and> lessons = []")
  case True
  then show ?thesis by (auto simp: buildContext_empty)
next
  case False
  then show ?thesis
    by (cases mems; cases eps; cases lessons) (simp_all add: buildContext_def Let_def)
qed

text \<open>The no-op path on a buffer that holds the system prompt.\<close>

theorem buildContext_no_op_iff_witness:
  "buildContext (\<lambda>t. []) [] [] [] [system_message] = Buffer [system_message]"
  using buildContext_no_op_iff [of "\<lambda>t. []" "[]" "[]" "[]" "[system_message]"]
  by simp

text \<open>
  Claim C9, as stated, fails: \<^verbatim>\<open>processResponse\<close> never searches. The table holds a row
  for \<^verbatim>\<open>"ab"\<close>, read 3 times; a search for \<^verbatim>\<open>"ab"\<close> with limit 1 and threshold 0.85 finds
  it; and still \<^verbatim>\<open>processResponse\<close> with the candidate \<^verbatim>\<open>"ab"\<close> stores it again: the row is
  replaced and its access count is back to 0.
\<close>

theorem processResponse_counterexample:
  "search_guide None 384 2000 ''ab'' 1 None 0.85 [row_guide] =
     Inr ([\<lparr>entry = row_guide, similarity_guide = 0.7 + 0.1 + (1 - 500 / 2592000000) * 0.1\<rparr>],
          [row_guide\<lparr>access_count := 4, last_accessed := 2000\<rparr>]) \<and>
   processResponse sha256_hex_table None 384 2000 ''2026-01-02''
       (Some [\<lparr>cand_content = ''ab'', cand_type = Fact, cand_importance = Some 0.5\<rparr>])
       [row_guide] =
     [\<lparr>row_id = ''fb8e20fc2e4c3f24'', content = ''ab'', embedding = localEmbedding 384 ''ab'',
       row_type = Fact, source = ''conversation-2026-01-02'', importance = 0.5,
       created_at = 2000, access_count = 0, last_accessed = 2000\<rparr>]"
proof (rule conjI)
  show "search_guide None 384 2000 ''ab'' 1 None 0.85 [row_guide] =
     Inr ([\<lparr>entry = row_guide, similarity_guide = 0.7 + 0.1 + (1 - 500 / 2592000000) * 0.1\<rparr>],
          [row_guide\<lparr>access_count := 4, last_accessed := 2000\<rparr>])"
    by (rule search_guide_hit)
  show "processResponse sha256_hex_table None 384 2000 ''2026-01-02''
       (Some [\<lparr>cand_content = ''ab'', cand_type = Fact, cand_importance = Some 0.5\<rparr>])
       [row_guide] =
     [\<lparr>row_id = ''fb8e20fc2e4c3f24'', content = ''ab'', embedding = localEmbedding 384 ''ab'',
       row_type = Fact, source = ''conversation-2026-01-02'', importance = 0.5,
       created_at = 2000, access_count = 0, last_accessed = 2000\<rparr>]"
    by (simp add: processResponse_def store_guide_def getEmbedding_def Let_def
        insert_or_replace_def row_guide_def sha256_hex_table_def)
qed

text \<open>
  Claim C9, amended. \<^verbatim>\<open>processResponse\<close> calls \<^verbatim>\<open>store\<close> for every candidate, in order and
  without a search: with no candidates the table stays as it is, and after it the table
  holds, for every candidate, exactly one row with the id of the candidate's content,
  written now and with access count 0 (a record that was there before is replaced).
\<close>

theorem processResponse_stores_every_candidate:
  "processResponse sha256_hex openai D now today None rows = rows \<and>
   processResponse sha256_hex openai D now today (Some []) rows = rows \<and>
   processResponse sha256_hex openai D now today (Some (mem # mems)) rows =
     processResponse sha256_hex openai D now today (Some mems)
       (snd (store_guide sha256_hex openai D now (cand_content mem) (cand_type mem)
               (''conversation-'' @ today)
               (case cand_importance mem of Some v \<Rightarrow> v | None \<Rightarrow> 0.5) rows)) \<and>
   (\<forall>mem\<in>set mems.
      \<exists>r. filter (\<lambda>r. row_id r = take 16 (sha256_hex (cand_content mem)))
             (processResponse sha256_hex openai D now today (Some mems) rows) = [r] \<and>
          access_count r = 0 \<and> created_at r = now \<and> last_accessed r = now)"
  using processResponse_None [of sha256_hex openai D now today rows]
    processResponse_Nil [of sha256_hex openai D now today rows]
    processResponse_Cons [of sha256_hex openai D now today mem mems rows]
    processResponse_stores_all [of mems sha256_hex openai D now today rows]
  by blast

text \<open>The candidate \<^verbatim>\<open>"ab"\<close> against the table that already holds a row for it.\<close>

theorem processResponse_stores_every_candidate_witness:
  "\<exists>r. filter (\<lambda>r. row_id r = ''fb8e20fc2e4c3f24'')
         (processResponse sha256_hex_table None 384 2000 ''2026-01-02''
            (Some [\<lparr>cand_content = ''ab'', cand_type = Fact, cand_importance = Some 0.5\<rparr>])
            [row_guide]) = [r] \<and>
       access_count r = 0 \<and> created_at r = 2000 \<and> last_accessed r = 2000"
  using processResponse_stores_every_candidate [where sha256_hex = sha256_hex_table
      and openai = None and D = 384 and now = 2000 and today = "''2026-01-02''"
      and rows = "[row_guide]"
      and mems = "[\<lparr>cand_content = ''ab'', cand_type = Fact, cand_importance = Some 0.5\<rparr>]"]
  by (simp add: sha256_hex_table_def)

end
